theory Spec2Isabelle
  imports Main "HOL-Library.Word"
begin

section \<open>Collaborators of the envelope manager\<close>

text \<open>
  \<^verbatim>\<open>src/lib/open-e2ee.ts\<close> imports three collaborators whose code is not part of the
  verified file: \<^verbatim>\<open>EncryptionService\<close> (\<^verbatim>\<open>./encryption\<close>), \<^verbatim>\<open>PGPService\<close> (\<^verbatim>\<open>./pgp\<close>) and
  the two functions of \<^verbatim>\<open>./encoding.utils\<close>. They are parameters of the model: a record of
  functions each, one field per method that the manager calls. Every awaited call may
  reject, so every method returns a sum: \<open>Inl\<close> carries the rejection reason (of an
  arbitrary type \<open>'e\<close>, the manager never looks into it), \<open>Inr\<close> the resolved value.

  The key handles \<^verbatim>\<open>PGPPrivateKey\<close>, \<^verbatim>\<open>PGPPublicKey\<close> and \<^verbatim>\<open>CryptoKey\<close> are opaque to the
  manager; they are the type parameters \<open>'priv\<close>, \<open>'pub\<close> and \<open>'ck\<close>.
\<close>

type_synonym bytes = "8 word list"
  \<comment> \<open>\<^verbatim>\<open>Uint8Array\<close>\<close>

type_synonym draw = nat
  \<comment> \<open>the randomness a key generator consumes in one call, made an explicit argument\<close>

record ('ck, 'e) EncryptionService =
  createEncryptionKey :: "draw \<Rightarrow> 'e + (bytes \<times> 'ck)"
    \<comment> \<open>resolves to \<^verbatim>\<open>{ key, keyObj }\<close>\<close>
  importSymmetricKey :: "bytes \<Rightarrow> 'e + 'ck"

text \<open>
  The manager hands its fields \<^verbatim>\<open>this.privateKey as PGPPrivateKey\<close> and
  \<^verbatim>\<open>this.publicKey as PGPPublicKey\<close> to the asymmetric operations. The cast is erased at
  run time, so an unset field arrives as \<^verbatim>\<open>undefined\<close>: the two operations take optional
  handles, \<open>None\<close> being \<^verbatim>\<open>undefined\<close>.
\<close>

record ('priv, 'pub, 'e) PGPService =
  generateKeyPair :: "draw \<Rightarrow> string \<Rightarrow> string \<Rightarrow> 'e + (string \<times> string)"
    \<comment> \<open>passphrase, user id; resolves to \<^verbatim>\<open>{ privateKey, publicKey }\<close>, both serialized\<close>
  decryptPrivateKey :: "string \<Rightarrow> string \<Rightarrow> 'e + 'priv"
    \<comment> \<open>serialized encrypted private key, passphrase\<close>
  readPublicKey :: "string \<Rightarrow> 'e + 'pub"
  encryptAsymmetric :: "'priv option \<Rightarrow> 'pub option \<Rightarrow> string \<Rightarrow> 'e + string"
  decryptAsymmetric :: "'priv option \<Rightarrow> 'pub option \<Rightarrow> string \<Rightarrow> 'e + string"
  encrypt :: "string \<Rightarrow> string \<Rightarrow> 'e + string"
    \<comment> \<open>hex key text, payload\<close>
  decrypt :: "string \<Rightarrow> string \<Rightarrow> 'e + string"
    \<comment> \<open>hex key text, ciphertext\<close>

text \<open>
  Modelled from the spec: \<^verbatim>\<open>hexStringToArray\<close> and \<^verbatim>\<open>arrayToHexString\<close> of
  \<^verbatim>\<open>./encoding.utils\<close> are missing; the specification calls both total, and the manager
  calls them without \<^verbatim>\<open>await\<close>, so they are plain functions here.
\<close>

record EncodingUtils =
  hexStringToArray :: "string \<Rightarrow> bytes"
  arrayToHexString :: "bytes \<Rightarrow> string"

section \<open>Jointly awaited promises\<close>

text \<open>
  \<^verbatim>\<open>await Promise.all([p, q])\<close> resolves to both values when both promises resolve, and
  rejects with the reason of the promise that rejects first in time. When only one rejects
  that is its reason; when both reject, which reason is seen depends on the order in which
  the collaborators settle, which the manager does not control. That order is an explicit
  argument.
\<close>

datatype settle = FirstSettlesFirst | SecondSettlesFirst

definition promise_all2 :: "settle \<Rightarrow> 'e + 'a \<Rightarrow> 'e + 'b \<Rightarrow> 'e + ('a \<times> 'b)" where
  "promise_all2 ord p q =
     (case p of
        Inr x \<Rightarrow> (case q of Inr y \<Rightarrow> Inr (x, y) | Inl eq \<Rightarrow> Inl eq)
      | Inl ep \<Rightarrow>
          (case q of
             Inr y \<Rightarrow> Inl ep
           | Inl eq \<Rightarrow> (case ord of FirstSettlesFirst \<Rightarrow> Inl ep | SecondSettlesFirst \<Rightarrow> Inl eq)))"

section \<open>The data of \<^verbatim>\<open>open-e2ee.ts\<close>\<close>

record 'ck E2EEItemEncrypted =
  encryptedKey :: string
  encryptedValue :: string
  keyObj :: 'ck

record 'ck E2EEItem =
  keyObj :: 'ck
  key :: string
  "value" :: string

text \<open>The object literal that \<^verbatim>\<open>exportMasterKeys\<close> returns.\<close>

record MasterKeys =
  privateKey :: string
  publicKey :: string

text \<open>
  The instance fields of class \<^verbatim>\<open>OpenE2EE\<close>. The four fields declared with \<^verbatim>\<open>?\<close> are
  \<^verbatim>\<open>undefined\<close> (\<open>None\<close>) until \<^verbatim>\<open>build\<close> or \<^verbatim>\<open>load\<close> assigns them.
\<close>

record ('priv, 'pub, 'ck, 'e) OpenE2EE =
  cryptoSvc :: "('ck, 'e) EncryptionService"
  pgpService :: "('priv, 'pub, 'e) PGPService"
  passphrase :: string
  privateKey :: "'priv option"
  privateKeyEncryptedText :: "string option"
  publicKeyText :: "string option"
  publicKey :: "'pub option"
  userId :: string

text \<open>
  An asynchronous method either rejects or resolves, and leaves the instance in some
  state: its model returns the settled result together with the instance afterwards.
\<close>

type_synonym ('e, 'a, 's) settled = "('e + 'a) \<times> 's"

section \<open>The methods of class \<^verbatim>\<open>OpenE2EE\<close>\<close>

text \<open>
  The constructor creates the two services itself (\<^verbatim>\<open>new EncryptionService()\<close>,
  \<^verbatim>\<open>new PGPService()\<close>); as their code is a parameter, the model receives them.
\<close>

definition constructor ::
  "('ck, 'e) EncryptionService \<Rightarrow> ('priv, 'pub, 'e) PGPService \<Rightarrow> string \<Rightarrow> string
     \<Rightarrow> ('priv, 'pub, 'ck, 'e) OpenE2EE" where
  "constructor cs ps uid pw =
     \<lparr>cryptoSvc = cs, pgpService = ps, passphrase = pw, privateKey = None,
      privateKeyEncryptedText = None, publicKeyText = None, publicKey = None, userId = uid\<rparr>"

definition encryptKey ::
  "EncodingUtils \<Rightarrow> ('priv, 'pub, 'ck, 'e) OpenE2EE \<Rightarrow> bytes \<Rightarrow> 'e + string" where
  "encryptKey U M k =
     encryptAsymmetric (pgpService M) (privateKey M) (publicKey M) (arrayToHexString U k)"

definition decryptKey ::
  "EncodingUtils \<Rightarrow> ('priv, 'pub, 'ck, 'e) OpenE2EE \<Rightarrow> string \<Rightarrow> 'e + (string \<times> 'ck)" where
  "decryptKey U M encKey =
     (case decryptAsymmetric (pgpService M) (privateKey M) (publicKey M) encKey of
        Inl e \<Rightarrow> Inl e
      | Inr k \<Rightarrow>
          (case importSymmetricKey (cryptoSvc M) (hexStringToArray U k) of
             Inl e \<Rightarrow> Inl e
           | Inr ko \<Rightarrow> Inr (k, ko)))"

text \<open>
  \<^verbatim>\<open>build\<close> and \<^verbatim>\<open>load\<close> resolve to \<^verbatim>\<open>this\<close>: the instance they return is the second
  component of the result, and the resolved value itself carries nothing more. All
  awaits come before the four assignments, and an assignment cannot fail.
\<close>

definition build ::
  "settle \<Rightarrow> draw \<Rightarrow> ('priv, 'pub, 'ck, 'e) OpenE2EE
     \<Rightarrow> ('e, unit, ('priv, 'pub, 'ck, 'e) OpenE2EE) settled" where
  "build ord d M =
     (case generateKeyPair (pgpService M) d (passphrase M) (userId M) of
        Inl e \<Rightarrow> (Inl e, M)
      | Inr (privText, pubText) \<Rightarrow>
          (case promise_all2 ord
                  (decryptPrivateKey (pgpService M) privText (passphrase M))
                  (readPublicKey (pgpService M) pubText) of
             Inl e \<Rightarrow> (Inl e, M)
           | Inr (k0, k1) \<Rightarrow>
               (Inr (),
                M\<lparr>privateKey := Some k0, publicKey := Some k1,
                  privateKeyEncryptedText := Some privText, publicKeyText := Some pubText\<rparr>)))"

definition load ::
  "settle \<Rightarrow> ('priv, 'pub, 'ck, 'e) OpenE2EE \<Rightarrow> string \<Rightarrow> string
     \<Rightarrow> ('e, unit, ('priv, 'pub, 'ck, 'e) OpenE2EE) settled" where
  "load ord M encryptedPrivateKey pubText =
     (case promise_all2 ord
             (decryptPrivateKey (pgpService M) encryptedPrivateKey (passphrase M))
             (readPublicKey (pgpService M) pubText) of
        Inl e \<Rightarrow> (Inl e, M)
      | Inr (privateKeyObj, publicKeyObj) \<Rightarrow>
          (Inr (),
           M\<lparr>privateKey := Some privateKeyObj, publicKey := Some publicKeyObj,
             privateKeyEncryptedText := Some encryptedPrivateKey,
             publicKeyText := Some pubText\<rparr>))"

text \<open>
  \<^verbatim>\<open>x || ""\<close>: the right operand replaces every falsy left operand, that is \<^verbatim>\<open>undefined\<close>
  and the empty string.
\<close>

definition or_empty :: "string option \<Rightarrow> string" where
  "or_empty x = (case x of None \<Rightarrow> '''' | Some s \<Rightarrow> (if s = '''' then '''' else s))"

definition exportMasterKeys ::
  "('priv, 'pub, 'ck, 'e) OpenE2EE \<Rightarrow> ('e, MasterKeys, ('priv, 'pub, 'ck, 'e) OpenE2EE) settled" where
  "exportMasterKeys M =
     (Inr \<lparr>MasterKeys.privateKey = or_empty (privateKeyEncryptedText M),
           MasterKeys.publicKey = or_empty (publicKeyText M)\<rparr>, M)"

definition encrypt ::
  "EncodingUtils \<Rightarrow> settle \<Rightarrow> draw \<Rightarrow> ('priv, 'pub, 'ck, 'e) OpenE2EE \<Rightarrow> string
     \<Rightarrow> ('e, 'ck E2EEItemEncrypted, ('priv, 'pub, 'ck, 'e) OpenE2EE) settled" where
  "encrypt U ord d M dat =
     (case createEncryptionKey (cryptoSvc M) d of
        Inl e \<Rightarrow> (Inl e, M)
      | Inr (k, ko) \<Rightarrow>
          (case promise_all2 ord
                  (encryptKey U M k)
                  (PGPService.encrypt (pgpService M) (arrayToHexString U k) dat) of
             Inl e \<Rightarrow> (Inl e, M)
           | Inr (encKey, encValue) \<Rightarrow>
               (Inr \<lparr>encryptedKey = encKey, encryptedValue = encValue,
                     E2EEItemEncrypted.keyObj = ko\<rparr>, M)))"

definition decrypt ::
  "EncodingUtils \<Rightarrow> ('priv, 'pub, 'ck, 'e) OpenE2EE \<Rightarrow> string \<Rightarrow> string
     \<Rightarrow> ('e, 'ck E2EEItem, ('priv, 'pub, 'ck, 'e) OpenE2EE) settled" where
  "decrypt U M encKey encryptedData =
     (case decryptKey U M encKey of
        Inl e \<Rightarrow> (Inl e, M)
      | Inr (k, ko) \<Rightarrow>
          (case PGPService.decrypt (pgpService M) k encryptedData of
             Inl e \<Rightarrow> (Inl e, M)
           | Inr v \<Rightarrow> (Inr \<lparr>E2EEItem.keyObj = ko, key = k, value = v\<rparr>, M)))"

section \<open>The two states of an instance\<close>

text \<open>
  The specification names two states. An instance is \<open>Uninitialized\<close> while its four
  key-pair fields are unset, and \<open>Ready\<close> once all four are set.
\<close>

definition Uninitialized :: "('priv, 'pub, 'ck, 'e) OpenE2EE \<Rightarrow> bool" where
  "Uninitialized M \<longleftrightarrow>
     privateKey M = None \<and> publicKey M = None \<and>
     privateKeyEncryptedText M = None \<and> publicKeyText M = None"

definition Ready :: "('priv, 'pub, 'ck, 'e) OpenE2EE \<Rightarrow> bool" where
  "Ready M \<longleftrightarrow>
     privateKey M \<noteq> None \<and> publicKey M \<noteq> None \<and>
     privateKeyEncryptedText M \<noteq> None \<and> publicKeyText M \<noteq> None"

section \<open>Example collaborators\<close>

text \<open>
  Concrete collaborators on which the theorems below are instantiated. They are small
  enough to be evaluated by rewriting, and they keep the shape of the real ones: a
  private key is sealed under a passphrase, a wrapped key names the key pair it was made
  for, a payload ciphertext names the key it was made under, and every operation rejects
  input that does not fit.
\<close>

datatype toy_error =
  KeyGenFailed | BadPassphrase | BadPublicKey | MissingKey | BadKey | Tampered | ImportRejected

text \<open>A two-digit lower-case hexadecimal codec for \<^verbatim>\<open>./encoding.utils\<close>.\<close>

definition hexDigit :: "nat \<Rightarrow> char" where
  "hexDigit n = ''0123456789abcdef'' ! n"

definition hexValue :: "char \<Rightarrow> nat" where
  "hexValue c =
     (let n = of_char c :: nat in
      if 48 \<le> n \<and> n \<le> 57 then n - 48
      else if 97 \<le> n \<and> n \<le> 102 then n - 87 else 0)"

definition toHex :: "bytes \<Rightarrow> string" where
  "toHex bs = concat (map (\<lambda>w. [hexDigit (unat w div 16), hexDigit (unat w mod 16)]) bs)"

fun fromHex :: "string \<Rightarrow> bytes" where
  "fromHex (a # b # cs) = of_nat (hexValue a * 16 + hexValue b) # fromHex cs"
| "fromHex cs = []"

definition hexUtils :: EncodingUtils where
  "hexUtils = \<lparr>hexStringToArray = fromHex, arrayToHexString = toHex\<rparr>"

text \<open>\<open>opens tag txt\<close> strips the prefix \<open>tag\<close> from \<open>txt\<close>, if \<open>txt\<close> starts with it.\<close>

definition opens :: "string \<Rightarrow> string \<Rightarrow> string option" where
  "opens tag txt = (if take (length tag) txt = tag then Some (drop (length tag) txt) else None)"

text \<open>
  A key pair is identified by the user id it was generated for (extended by one \<^verbatim>\<open>+\<close> per
  unit of the draw). The handles are that identity; the serialized private key is the
  identity sealed behind the passphrase. The asymmetric operations reject absent handles;
  a text is wrapped for the public key, and unwrapped with the private key of the same
  pair only. The payload ciphertext starts with the key text and a colon, so a key text
  must not contain one; decryption accepts a ciphertext under the key text it starts with
  and under no other.
\<close>

definition toyPGP :: "(string, string, toy_error) PGPService" where
  "toyPGP =
     \<lparr>generateKeyPair = (\<lambda>d pw uid.
          if uid = [] then Inl KeyGenFailed
          else Inr (pw @ ''#'' @ uid @ replicate d CHR ''+'', uid @ replicate d CHR ''+'')),
      decryptPrivateKey = (\<lambda>txt pw.
          case opens (pw @ ''#'') txt of None \<Rightarrow> Inl BadPassphrase | Some sk \<Rightarrow> Inr sk),
      readPublicKey = (\<lambda>txt. if txt = [] then Inl BadPublicKey else Inr txt),
      encryptAsymmetric = (\<lambda>sk pk t.
          case (sk, pk) of (Some a, Some b) \<Rightarrow> Inr (b @ ''>'' @ t) | _ \<Rightarrow> Inl MissingKey),
      decryptAsymmetric = (\<lambda>sk pk c.
          case (sk, pk) of
            (Some a, Some b) \<Rightarrow>
              (case opens (a @ ''>'') c of None \<Rightarrow> Inl Tampered | Some t \<Rightarrow> Inr t)
          | _ \<Rightarrow> Inl MissingKey),
      encrypt = (\<lambda>h p. if CHR '':'' \<in> set h then Inl BadKey else Inr (h @ '':'' @ p)),
      decrypt = (\<lambda>h c.
          if takeWhile (\<lambda>x. x \<noteq> CHR '':'') c = h \<and> length h < length c
          then Inr (drop (Suc (length h)) c) else Inl Tampered)\<rparr>"

text \<open>The generated key is the draw followed by a fixed byte; its handle is the key.\<close>

definition toyCrypto :: "(bytes, toy_error) EncryptionService" where
  "toyCrypto =
     \<lparr>createEncryptionKey = (\<lambda>d. Inr ([of_nat d, 171], [of_nat d, 171])),
      importSymmetricKey = (\<lambda>b. if b = [] then Inl ImportRejected else Inr b)\<rparr>"

text \<open>
  A variant of the example asymmetric engine that never looks at the key handles it is
  given.
\<close>

definition lenientPGP :: "(string, string, toy_error) PGPService" where
  "lenientPGP =
     toyPGP\<lparr>encryptAsymmetric := (\<lambda>sk pk t. Inr (''>'' @ t)),
            decryptAsymmetric := (\<lambda>sk pk c.
              case opens ''>'' c of None \<Rightarrow> Inl Tampered | Some t \<Rightarrow> Inr t)\<rparr>"

text \<open>
  Example instances: freshly constructed ones, one made Ready by loading the key pair that
  \<open>generateKeyPair toyPGP 0 ''correct-horse'' ''user-1''\<close> produces, and one made Ready by
  loading the private key of that pair together with the public key of the pair that
  \<open>generateKeyPair toyPGP 0 ''other-pass'' ''user-2''\<close> produces.
\<close>

definition freshManager :: "(string, string, bytes, toy_error) OpenE2EE" where
  "freshManager = constructor toyCrypto toyPGP ''user-1'' ''correct-horse''"

definition readyManager :: "(string, string, bytes, toy_error) OpenE2EE" where
  "readyManager = snd (load FirstSettlesFirst freshManager ''correct-horse#user-1'' ''user-1'')"

definition mismatchedManager :: "(string, string, bytes, toy_error) OpenE2EE" where
  "mismatchedManager =
     snd (load FirstSettlesFirst freshManager ''correct-horse#user-1'' ''user-2'')"

definition wrongPassManager :: "(string, string, bytes, toy_error) OpenE2EE" where
  "wrongPassManager = constructor toyCrypto toyPGP ''user-1'' ''battery-staple''"

definition noUserManager :: "(string, string, bytes, toy_error) OpenE2EE" where
  "noUserManager = constructor toyCrypto toyPGP [] ''correct-horse''"

definition lenientManager :: "(string, string, bytes, toy_error) OpenE2EE" where
  "lenientManager = constructor toyCrypto lenientPGP ''user-1'' ''correct-horse''"

lemmas toy_defs =
  freshManager_def readyManager_def wrongPassManager_def constructor_def toyCrypto_def
  toyPGP_def hexUtils_def toHex_def hexDigit_def hexValue_def opens_def

lemmas method_defs =
  build_def load_def encrypt_def decrypt_def encryptKey_def decryptKey_def
  exportMasterKeys_def or_empty_def promise_all2_def Uninitialized_def Ready_def

section \<open>Auxiliary facts\<close>

lemma promise_all2_Inr_iff:
  "promise_all2 ord p q = Inr (x, y) \<longleftrightarrow> p = Inr x \<and> q = Inr y"
  by (auto simp: promise_all2_def split: sum.splits settle.splits)

lemma promise_all2_Inl_cases:
  "promise_all2 ord p q = Inl e \<Longrightarrow> p = Inl e \<or> q = Inl e"
  by (auto simp: promise_all2_def split: sum.splits settle.splits)

lemma promise_all2_isl:
  "isl (promise_all2 ord p q) \<longleftrightarrow> isl p \<or> isl q"
  by (auto simp: promise_all2_def split: sum.splits settle.splits)

lemma build_resolved_Ready: "build ord d M = (Inr u, M') \<Longrightarrow> Ready M'"
  by (auto simp: build_def Ready_def split: sum.splits prod.splits)

lemma load_resolved_Ready: "load ord M encryptedPrivateKey pubText = (Inr u, M') \<Longrightarrow> Ready M'"
  by (auto simp: load_def Ready_def split: sum.splits prod.splits)

lemma constructor_Uninitialized: "Uninitialized (constructor cs ps uid pw)"
  by (simp add: constructor_def Uninitialized_def)

lemma readyManager_fields:
  "readyManager =
     \<lparr>cryptoSvc = toyCrypto, pgpService = toyPGP, passphrase = ''correct-horse'',
      privateKey = Some ''user-1'', privateKeyEncryptedText = Some ''correct-horse#user-1'',
      publicKeyText = Some ''user-1'', publicKey = Some ''user-1'', userId = ''user-1''\<rparr>"
  by (simp add: readyManager_def freshManager_def constructor_def load_def promise_all2_def
      toyPGP_def opens_def)

lemma readyManager_Ready: "Ready readyManager"
  by (simp add: readyManager_fields Ready_def)

lemma freshManager_Uninitialized: "Uninitialized freshManager"
  by (simp add: freshManager_def constructor_Uninitialized)

lemma wrongPassManager_Uninitialized: "Uninitialized wrongPassManager"
  by (simp add: wrongPassManager_def constructor_Uninitialized)

text \<open>The example codec round-trips.\<close>

lemma hexValue_hexDigit: "n < 16 \<Longrightarrow> hexValue (hexDigit n) = n"
proof -
  assume "n < 16"
  then have "n \<in> {0, 1, 2, 3, 4, 5, 6, 7, 8, 9, 10, 11, 12, 13, 14, 15}"
    by (simp; arith)
  then show ?thesis
    by (auto simp: hexDigit_def hexValue_def)
qed

lemma fromHex_toHex: "fromHex (toHex bs) = bs"
proof (induction bs)
  case Nil
  show ?case by (simp add: toHex_def)
next
  case (Cons w bs)
  have "unat w < 256"
    using unsigned_less [of w] by simp
  then have "unat w div 16 < 16"
    by simp
  with Cons show ?case
    by (simp add: toHex_def hexValue_hexDigit)
qed

lemma hexUtils_roundtrip: "hexStringToArray hexUtils (arrayToHexString hexUtils b) = b"
  by (simp add: hexUtils_def fromHex_toHex)

text \<open>
  The example asymmetric engine unwraps what it wrapped for a matching key pair; whatever
  handles wrapped a text, the private key that belongs to the public key unwraps it. The
  example payload decryption inverts the payload encryption under the same key text and
  rejects the ciphertext under every other key text.
\<close>

lemma opens_append: "opens tag (tag @ t) = Some t"
  by (simp add: opens_def)

lemma toyPGP_wrap_inverse:
  "encryptAsymmetric toyPGP (Some a) (Some a) t = Inr c \<Longrightarrow>
   decryptAsymmetric toyPGP (Some a) (Some a) c = Inr t"
  using opens_append [of "a @ ''>''" t] by (auto simp: toyPGP_def)

lemma toyPGP_unwrap_by_owner:
  "encryptAsymmetric toyPGP sk (Some b) t = Inr c \<Longrightarrow>
   decryptAsymmetric toyPGP (Some b) (Some b) c = Inr t"
  using opens_append [of "b @ ''>''" t] by (auto simp: toyPGP_def split: option.splits)

lemma takeWhile_key_text:
  "CHR '':'' \<notin> set h \<Longrightarrow> takeWhile (\<lambda>x. x \<noteq> CHR '':'') (h @ CHR '':'' # p) = h"
  by (induction h) auto

lemma toyPGP_payload_inverse:
  "PGPService.encrypt toyPGP h p = Inr c \<Longrightarrow> PGPService.decrypt toyPGP h c = Inr p"
  by (auto simp: toyPGP_def takeWhile_key_text split: if_splits)

lemma toyPGP_payload_miskeyed:
  "PGPService.encrypt toyPGP h p = Inr c \<Longrightarrow> h' \<noteq> h \<Longrightarrow> isl (PGPService.decrypt toyPGP h' c)"
  by (auto simp: toyPGP_def takeWhile_key_text split: if_splits)

lemma mismatchedManager_fields:
  "mismatchedManager =
     \<lparr>cryptoSvc = toyCrypto, pgpService = toyPGP, passphrase = ''correct-horse'',
      privateKey = Some ''user-1'', privateKeyEncryptedText = Some ''correct-horse#user-1'',
      publicKeyText = Some ''user-2'', publicKey = Some ''user-2'', userId = ''user-1''\<rparr>"
  by (simp add: mismatchedManager_def freshManager_def constructor_def load_def
      promise_all2_def toyPGP_def opens_def)

section \<open>Round trip of an item\<close>

text \<open>
  Claim C1, as stated, fails. The claim speaks of every instance that is Ready after a
  successful \<^verbatim>\<open>build\<close> or \<^verbatim>\<open>load\<close>. But \<^verbatim>\<open>load\<close> does not check that its two arguments belong to
  one key pair (shown in the last section), and \<^verbatim>\<open>encryptKey\<close> and \<^verbatim>\<open>decryptKey\<close> use whatever handles
  the instance holds. The example engines satisfy the claim's assumptions: under a key
  pair the unwrap inverts the wrap, the payload decryption inverts the payload
  encryption, the codec round-trips (see the auxiliary facts), and the generated key is
  imported. With the private key of \<^verbatim>\<open>user-1\<close> and the public key of \<^verbatim>\<open>user-2\<close>, \<^verbatim>\<open>load\<close>
  resolves and the instance is Ready; it encrypts \<^verbatim>\<open>hello world\<close>, wrapping the item key
  for \<^verbatim>\<open>user-2\<close>, and then fails to decrypt its own item.
\<close>

theorem roundtrip_with_mismatched_keys_counterexample:
  "generateKeyPair toyPGP 0 ''correct-horse'' ''user-1'' =
     Inr (''correct-horse#user-1'', ''user-1'') \<and>
   generateKeyPair toyPGP 0 ''other-pass'' ''user-2'' = Inr (''other-pass#user-2'', ''user-2'') \<and>
   load FirstSettlesFirst freshManager ''correct-horse#user-1'' ''user-2'' =
     (Inr (), mismatchedManager) \<and>
   Ready mismatchedManager \<and>
   pgpService mismatchedManager = toyPGP \<and>
   cryptoSvc mismatchedManager = toyCrypto \<and>
   privateKey mismatchedManager = Some ''user-1'' \<and>
   publicKey mismatchedManager = Some ''user-2'' \<and>
   createEncryptionKey (cryptoSvc mismatchedManager) 7 = Inr ([7, 171], [7, 171]) \<and>
   importSymmetricKey (cryptoSvc mismatchedManager) [7, 171] = Inr [7, 171] \<and>
   fst (encrypt hexUtils FirstSettlesFirst 7 mismatchedManager ''hello world'') =
     Inr \<lparr>encryptedKey = ''user-2>07ab'', encryptedValue = ''07ab:hello world'',
          keyObj = [7, 171]\<rparr> \<and>
   fst (decrypt hexUtils mismatchedManager ''user-2>07ab'' ''07ab:hello world'') =
     Inl Tampered"
  by (simp add: mismatchedManager_def method_defs toy_defs)

text \<open>
  Claim C1, amended. Let the two key handles that the instance holds be such that the
  asymmetric engine unwraps under them what it wrapped under them, that is, let them be
  the two halves of one key pair; \<^verbatim>\<open>load\<close> does not establish this, its caller has to pass
  keys that belong together. Assume further, as the claim does and as the specification
  describes the engines, that payload decryption inverts payload encryption under the
  same key text, that the hex codec round-trips, and that the symmetric engine imports
  the generated key bytes. If \<^verbatim>\<open>encrypt(P)\<close> drew the key \<open>k\<close> and resolved to an item, then
  \<^verbatim>\<open>decrypt\<close> of that item's \<^verbatim>\<open>encryptedKey\<close> and \<^verbatim>\<open>encryptedValue\<close> on the same instance
  resolves, its \<^verbatim>\<open>value\<close> is \<open>P\<close> and its \<^verbatim>\<open>key\<close> is the hex encoding of \<open>k\<close>.
\<close>

theorem encrypt_then_decrypt_roundtrip:
  assumes wrap: "\<And>t c. encryptAsymmetric (pgpService M) (privateKey M) (publicKey M) t = Inr c
              \<Longrightarrow> decryptAsymmetric (pgpService M) (privateKey M) (publicKey M) c = Inr t"
    and payload: "\<And>h p c. PGPService.encrypt (pgpService M) h p = Inr c
              \<Longrightarrow> PGPService.decrypt (pgpService M) h c = Inr p"
    and hex: "\<And>b. hexStringToArray U (arrayToHexString U b) = b"
    and gen: "createEncryptionKey (cryptoSvc M) d = Inr (k, ko)"
    and imp: "importSymmetricKey (cryptoSvc M) k = Inr ko'"
    and enc: "fst (encrypt U ord d M P) = Inr item"
  shows "fst (decrypt U M (encryptedKey item) (encryptedValue item)) =
           Inr \<lparr>E2EEItem.keyObj = ko', key = arrayToHexString U k, value = P\<rparr>"
proof -
  from enc gen obtain c v where
    pa: "promise_all2 ord (encryptKey U M k)
           (PGPService.encrypt (pgpService M) (arrayToHexString U k) P) = Inr (c, v)"
    and item: "item = \<lparr>encryptedKey = c, encryptedValue = v, E2EEItemEncrypted.keyObj = ko\<rparr>"
    by (auto simp: encrypt_def split: sum.splits prod.splits)
  from pa have w: "encryptAsymmetric (pgpService M) (privateKey M) (publicKey M)
                     (arrayToHexString U k) = Inr c"
    and p: "PGPService.encrypt (pgpService M) (arrayToHexString U k) P = Inr v"
    by (simp_all add: promise_all2_Inr_iff encryptKey_def)
  have "decryptKey U M c = Inr (arrayToHexString U k, ko')"
    by (simp add: decryptKey_def wrap [OF w] hex imp)
  then show ?thesis
    by (simp add: decrypt_def item payload [OF p])
qed

theorem encrypt_then_decrypt_roundtrip_witness:
  "Ready readyManager \<and>
   fst (encrypt hexUtils FirstSettlesFirst 7 readyManager ''hello world'') =
     Inr \<lparr>encryptedKey = ''user-1>07ab'', encryptedValue = ''07ab:hello world'',
          keyObj = [7, 171]\<rparr> \<and>
   fst (decrypt hexUtils readyManager ''user-1>07ab'' ''07ab:hello world'') =
     Inr \<lparr>E2EEItem.keyObj = [7, 171], key = ''07ab'', value = ''hello world''\<rparr>"
proof -
  have sk: "privateKey readyManager = Some ''user-1''"
    and pk: "publicKey readyManager = Some ''user-1''"
    and ps: "pgpService readyManager = toyPGP"
    and cs: "cryptoSvc readyManager = toyCrypto"
    by (simp_all add: readyManager_fields)
  have gen: "createEncryptionKey (cryptoSvc readyManager) 7 = Inr ([7, 171], [7, 171])"
    by (simp add: cs toyCrypto_def)
  have imp: "importSymmetricKey (cryptoSvc readyManager) [7, 171] = Inr [7, 171]"
    by (simp add: cs toyCrypto_def)
  have enc: "fst (encrypt hexUtils FirstSettlesFirst 7 readyManager ''hello world'') =
      Inr \<lparr>encryptedKey = ''user-1>07ab'', encryptedValue = ''07ab:hello world'',
           keyObj = [7, 171]\<rparr>"
    by (simp add: readyManager_fields method_defs toy_defs)
  have hx: "arrayToHexString hexUtils [7, 171] = ''07ab''"
    by (simp add: toy_defs)
  from encrypt_then_decrypt_roundtrip
         [of readyManager hexUtils 7 "[7, 171]" "[7, 171]" "[7, 171]" FirstSettlesFirst
             "''hello world''", OF _ _ hexUtils_roundtrip gen imp enc]
       toyPGP_wrap_inverse toyPGP_payload_inverse
  have "fst (decrypt hexUtils readyManager ''user-1>07ab'' ''07ab:hello world'') =
     Inr \<lparr>E2EEItem.keyObj = [7, 171], key = ''07ab'', value = ''hello world''\<rparr>"
    by (simp add: sk pk ps hx)
  with readyManager_Ready enc show ?thesis
    by simp
qed

section \<open>Item operations on an Uninitialized instance\<close>

text \<open>
  Claim C2, as stated, fails. The methods contain no readiness check and no not-ready
  error: \<^verbatim>\<open>encryptKey\<close> and \<^verbatim>\<open>decryptKey\<close> cast the unset fields and pass them on. Whether an
  item operation on an Uninitialized instance fails is decided by the asymmetric engine
  alone. With an engine that does not look at the handles, a freshly constructed instance
  encrypts and decrypts.
\<close>

theorem uninitialized_encrypt_resolves_counterexample:
  "Uninitialized lenientManager \<and>
   fst (encrypt hexUtils FirstSettlesFirst 7 lenientManager ''hello world'') =
     Inr \<lparr>encryptedKey = ''>07ab'', encryptedValue = ''07ab:hello world'',
          keyObj = [7, 171]\<rparr> \<and>
   fst (decrypt hexUtils lenientManager ''>07ab'' ''07ab:hello world'') =
     Inr \<lparr>E2EEItem.keyObj = [7, 171], key = ''07ab'', value = ''hello world''\<rparr>"
  by (simp add: lenientManager_def lenientPGP_def method_defs toy_defs)

text \<open>
  Claim C2, amended. On an Uninitialized instance \<^verbatim>\<open>encrypt\<close> and \<^verbatim>\<open>decrypt\<close> hand absent
  key handles to the asymmetric engine and fail exactly when a collaborator call rejects:
  \<^verbatim>\<open>encrypt\<close> rejects if and only if key generation rejects, or the engine's
  \<^verbatim>\<open>encryptAsymmetric\<close> called with absent handles rejects, or the payload encryption
  rejects, and its rejection reason is one of theirs; \<^verbatim>\<open>decrypt\<close> rejects with reason \<open>e\<close>
  if and only if \<open>e\<close> is the reason of the engine's \<^verbatim>\<open>decryptAsymmetric\<close> called with absent
  handles, or of the key import, or of the payload decryption that follows. The manager
  raises no error of its own.
\<close>

theorem uninitialized_item_operations_delegate:
  assumes "Uninitialized M"
  shows
  "(isl (fst (encrypt U ord d M dat)) \<longleftrightarrow>
      (case createEncryptionKey (cryptoSvc M) d of
         Inl e \<Rightarrow> True
       | Inr (k, ko) \<Rightarrow>
           isl (encryptAsymmetric (pgpService M) None None (arrayToHexString U k)) \<or>
           isl (PGPService.encrypt (pgpService M) (arrayToHexString U k) dat))) \<and>
   (fst (encrypt U ord d M dat) = Inl e \<longrightarrow>
      createEncryptionKey (cryptoSvc M) d = Inl e \<or>
      (\<exists>k ko. createEncryptionKey (cryptoSvc M) d = Inr (k, ko) \<and>
         (encryptAsymmetric (pgpService M) None None (arrayToHexString U k) = Inl e \<or>
          PGPService.encrypt (pgpService M) (arrayToHexString U k) dat = Inl e))) \<and>
   (fst (decrypt U M encKey encryptedData) = Inl e \<longleftrightarrow>
      decryptAsymmetric (pgpService M) None None encKey = Inl e \<or>
      (\<exists>k. decryptAsymmetric (pgpService M) None None encKey = Inr k \<and>
         (importSymmetricKey (cryptoSvc M) (hexStringToArray U k) = Inl e \<or>
          (\<exists>ko. importSymmetricKey (cryptoSvc M) (hexStringToArray U k) = Inr ko \<and>
             PGPService.decrypt (pgpService M) k encryptedData = Inl e))))"
proof -
  from assms have sk: "privateKey M = None" and pk: "publicKey M = None"
    by (simp_all add: Uninitialized_def)
  have a: "isl (fst (encrypt U ord d M dat)) \<longleftrightarrow>
      (case createEncryptionKey (cryptoSvc M) d of
         Inl e \<Rightarrow> True
       | Inr (k, ko) \<Rightarrow>
           isl (encryptAsymmetric (pgpService M) None None (arrayToHexString U k)) \<or>
           isl (PGPService.encrypt (pgpService M) (arrayToHexString U k) dat))"
  proof (cases "createEncryptionKey (cryptoSvc M) d")
    case (Inl e')
    then show ?thesis by (simp add: encrypt_def)
  next
    case (Inr kk)
    obtain k ko where kk: "kk = (k, ko)" by (cases kk)
    have "isl (fst (encrypt U ord d M dat)) \<longleftrightarrow>
        isl (promise_all2 ord (encryptKey U M k)
               (PGPService.encrypt (pgpService M) (arrayToHexString U k) dat))"
      by (simp add: encrypt_def Inr kk split: sum.splits)
    then show ?thesis
      by (simp add: promise_all2_isl encryptKey_def sk pk Inr kk)
  qed
  have b: "fst (encrypt U ord d M dat) = Inl e \<longrightarrow>
      createEncryptionKey (cryptoSvc M) d = Inl e \<or>
      (\<exists>k ko. createEncryptionKey (cryptoSvc M) d = Inr (k, ko) \<and>
         (encryptAsymmetric (pgpService M) None None (arrayToHexString U k) = Inl e \<or>
          PGPService.encrypt (pgpService M) (arrayToHexString U k) dat = Inl e))"
    by (auto simp: encrypt_def encryptKey_def sk pk split: sum.splits prod.splits
        dest: promise_all2_Inl_cases)
  have c: "fst (decrypt U M encKey encryptedData) = Inl e \<longleftrightarrow>
      decryptAsymmetric (pgpService M) None None encKey = Inl e \<or>
      (\<exists>k. decryptAsymmetric (pgpService M) None None encKey = Inr k \<and>
         (importSymmetricKey (cryptoSvc M) (hexStringToArray U k) = Inl e \<or>
          (\<exists>ko. importSymmetricKey (cryptoSvc M) (hexStringToArray U k) = Inr ko \<and>
             PGPService.decrypt (pgpService M) k encryptedData = Inl e)))"
    by (auto simp: decrypt_def decryptKey_def sk pk split: sum.splits prod.splits)
  from a b c show ?thesis by blast
qed

theorem uninitialized_item_operations_delegate_witness:
  "Uninitialized freshManager \<and>
   encryptAsymmetric (pgpService freshManager) None None ''07ab'' = Inl MissingKey \<and>
   fst (encrypt hexUtils FirstSettlesFirst 7 freshManager ''hello world'') = Inl MissingKey \<and>
   decryptAsymmetric (pgpService freshManager) None None ''user-1>07ab'' = Inl MissingKey \<and>
   fst (decrypt hexUtils freshManager ''user-1>07ab'' ''07ab:hello world'') = Inl MissingKey"
proof -
  have e: "fst (encrypt hexUtils FirstSettlesFirst 7 freshManager ''hello world'') = Inl MissingKey"
    by (simp add: method_defs toy_defs)
  have ek: "encryptAsymmetric (pgpService freshManager) None None ''07ab'' = Inl MissingKey"
    by (simp add: toy_defs)
  have dk: "decryptAsymmetric (pgpService freshManager) None None ''user-1>07ab'' = Inl MissingKey"
    by (simp add: toy_defs)
  from uninitialized_item_operations_delegate
         [OF freshManager_Uninitialized, of hexUtils FirstSettlesFirst 7 "''hello world''"
            MissingKey "''user-1>07ab''" "''07ab:hello world''"] dk
  have d: "fst (decrypt hexUtils freshManager ''user-1>07ab'' ''07ab:hello world'') = Inl MissingKey"
    by blast
  from freshManager_Uninitialized e ek dk d show ?thesis
    by simp
qed

section \<open>Exporting the master keys\<close>

text \<open>
  Claim C3. In state Uninitialized, in particular right after construction,
  \<^verbatim>\<open>exportMasterKeys\<close> resolves to empty strings in both fields. In every state it
  resolves (it never rejects), leaves the instance unchanged, gives the same answer when
  called again, and returns the two stored serialized texts (or the empty string for an
  unset one): its result does not depend on the usable key handles.
\<close>

theorem export_before_initialisation_is_empty:
  "(Uninitialized M \<longrightarrow>
      fst (exportMasterKeys M) = Inr \<lparr>MasterKeys.privateKey = '''', publicKey = ''''\<rparr>) \<and>
   Uninitialized (constructor cs ps uid pw) \<and>
   (\<exists>r. fst (exportMasterKeys M) = Inr r) \<and>
   snd (exportMasterKeys M) = M \<and>
   exportMasterKeys (snd (exportMasterKeys M)) = exportMasterKeys M \<and>
   fst (exportMasterKeys (M\<lparr>privateKey := sk, publicKey := pk\<rparr>)) = fst (exportMasterKeys M) \<and>
   fst (exportMasterKeys M) =
     Inr \<lparr>MasterKeys.privateKey = (case privateKeyEncryptedText M of None \<Rightarrow> '''' | Some t \<Rightarrow> t),
          publicKey = (case publicKeyText M of None \<Rightarrow> '''' | Some t \<Rightarrow> t)\<rparr>"
  by (simp add: exportMasterKeys_def or_empty_def Uninitialized_def constructor_def
      split: option.splits)

theorem export_before_initialisation_is_empty_witness:
  "Uninitialized freshManager \<and>
   fst (exportMasterKeys freshManager) = Inr \<lparr>MasterKeys.privateKey = '''', publicKey = ''''\<rparr> \<and>
   snd (exportMasterKeys freshManager) = freshManager \<and>
   fst (exportMasterKeys
          (snd (load FirstSettlesFirst wrongPassManager ''correct-horse#user-1'' ''user-1''))) =
     Inr \<lparr>MasterKeys.privateKey = '''', publicKey = ''''\<rparr> \<and>
   fst (exportMasterKeys readyManager) =
     Inr \<lparr>MasterKeys.privateKey = ''correct-horse#user-1'', publicKey = ''user-1''\<rparr>"
proof -
  note t = export_before_initialisation_is_empty
  have l: "snd (load FirstSettlesFirst wrongPassManager ''correct-horse#user-1'' ''user-1'') =
      wrongPassManager"
    by (simp add: method_defs toy_defs)
  from t [where M = freshManager] freshManager_Uninitialized
  have a: "fst (exportMasterKeys freshManager) =
      Inr \<lparr>MasterKeys.privateKey = '''', publicKey = ''''\<rparr>"
    by blast
  from t [where M = freshManager]
  have b: "snd (exportMasterKeys freshManager) = freshManager"
    by blast
  from t [where M = wrongPassManager] wrongPassManager_Uninitialized
  have c: "fst (exportMasterKeys wrongPassManager) =
      Inr \<lparr>MasterKeys.privateKey = '''', publicKey = ''''\<rparr>"
    by blast
  from t [where M = readyManager]
  have "fst (exportMasterKeys readyManager) =
      Inr \<lparr>MasterKeys.privateKey =
             (case privateKeyEncryptedText readyManager of None \<Rightarrow> [] | Some t \<Rightarrow> t),
           publicKey = (case publicKeyText readyManager of None \<Rightarrow> [] | Some t \<Rightarrow> t)\<rparr>"
    by blast
  then have d: "fst (exportMasterKeys readyManager) =
      Inr \<lparr>MasterKeys.privateKey = ''correct-horse#user-1'', publicKey = ''user-1''\<rparr>"
    by (simp add: readyManager_fields)
  from freshManager_Uninitialized a b c d l show ?thesis
    by simp
qed

text \<open>
  Claim C4. After \<^verbatim>\<open>load(encryptedPrivateKey, publicKey)\<close> has resolved, \<^verbatim>\<open>exportMasterKeys\<close>
  on the resulting instance returns exactly the two argument strings: \<^verbatim>\<open>privateKey\<close> is the
  \<^verbatim>\<open>encryptedPrivateKey\<close> argument and \<^verbatim>\<open>publicKey\<close> is the \<^verbatim>\<open>publicKey\<close> argument.
\<close>

theorem export_after_load_is_verbatim:
  "load ord M encryptedPrivateKey pubText = (Inr u, M') \<Longrightarrow>
   fst (exportMasterKeys M') =
     Inr \<lparr>MasterKeys.privateKey = encryptedPrivateKey, publicKey = pubText\<rparr>"
  by (auto simp: load_def exportMasterKeys_def or_empty_def split: sum.splits prod.splits)

theorem export_after_load_is_verbatim_witness:
  "load FirstSettlesFirst freshManager ''correct-horse#user-1'' ''user-1'' =
     (Inr (), readyManager) \<and>
   fst (exportMasterKeys readyManager) =
     Inr \<lparr>MasterKeys.privateKey = ''correct-horse#user-1'', publicKey = ''user-1''\<rparr>"
proof -
  have l: "load FirstSettlesFirst freshManager ''correct-horse#user-1'' ''user-1'' =
      (Inr (), readyManager)"
    by (simp add: readyManager_fields method_defs toy_defs)
  from export_after_load_is_verbatim [OF l] l show ?thesis
    by simp
qed

section \<open>Loading under the wrong passphrase\<close>

text \<open>
  Claim C5, as stated, fails. The private key is decrypted and the public key is imported
  under one \<^verbatim>\<open>Promise.all\<close>, which rejects with the reason of whichever promise rejects
  first. When the passphrase is wrong and the public key text is malformed as well, and the
  import settles first, \<^verbatim>\<open>load\<close> rejects with the import's reason, not with the private-key
  decryption error. Here the key pair was generated under \<^verbatim>\<open>correct-horse\<close>, the instance
  was constructed with \<^verbatim>\<open>battery-staple\<close>, and the public key text is empty.
\<close>

theorem wrong_passphrase_other_error_counterexample:
  "generateKeyPair toyPGP 0 ''correct-horse'' ''user-1'' =
     Inr (''correct-horse#user-1'', ''user-1'') \<and>
   passphrase wrongPassManager = ''battery-staple'' \<and>
   decryptPrivateKey (pgpService wrongPassManager) ''correct-horse#user-1''
     (passphrase wrongPassManager) = Inl BadPassphrase \<and>
   fst (load SecondSettlesFirst wrongPassManager ''correct-horse#user-1'' '''') =
     Inl BadPublicKey"
  by (simp add: method_defs toy_defs)

text \<open>
  Claim C5, amended. Whenever the asymmetric engine rejects the decryption of the given
  \<^verbatim>\<open>encryptedPrivateKey\<close> under the configured passphrase, \<^verbatim>\<open>load\<close> rejects, returns no
  instance and leaves the instance as it was, so that an Uninitialized instance does not
  become Ready. The rejection reason is the
  private-key decryption error, unless the public-key import rejects too and settles
  first: then it is the import's error. \<^verbatim>\<open>load\<close> resolves only if both the private-key
  decryption and the public-key import resolve, and the instance is then Ready.
\<close>

theorem load_rejects_undecryptable_private_key:
  "(decryptPrivateKey (pgpService M) encryptedPrivateKey (passphrase M) = Inl e \<longrightarrow>
      load ord M encryptedPrivateKey pubText =
        (Inl (case readPublicKey (pgpService M) pubText of
                Inr pk \<Rightarrow> e
              | Inl e' \<Rightarrow> (case ord of FirstSettlesFirst \<Rightarrow> e | SecondSettlesFirst \<Rightarrow> e')), M)) \<and>
   (fst (load ord M encryptedPrivateKey pubText) = Inr u \<longrightarrow>
      (\<exists>sk pk. decryptPrivateKey (pgpService M) encryptedPrivateKey (passphrase M) = Inr sk \<and>
               readPublicKey (pgpService M) pubText = Inr pk \<and>
               Ready (snd (load ord M encryptedPrivateKey pubText))))"
  by (auto simp: load_def promise_all2_def Ready_def split: sum.splits prod.splits settle.splits)

theorem load_rejects_undecryptable_private_key_witness:
  "decryptPrivateKey (pgpService wrongPassManager) ''correct-horse#user-1''
     (passphrase wrongPassManager) = Inl BadPassphrase \<and>
   load FirstSettlesFirst wrongPassManager ''correct-horse#user-1'' ''user-1'' =
     (Inl BadPassphrase, wrongPassManager) \<and>
   Uninitialized wrongPassManager \<and>
   fst (load FirstSettlesFirst freshManager ''correct-horse#user-1'' ''user-1'') = Inr () \<and>
   Ready (snd (load FirstSettlesFirst freshManager ''correct-horse#user-1'' ''user-1''))"
proof -
  note t = load_rejects_undecryptable_private_key
  have d: "decryptPrivateKey (pgpService wrongPassManager) ''correct-horse#user-1''
     (passphrase wrongPassManager) = Inl BadPassphrase"
    by (simp add: toy_defs)
  have r: "readPublicKey (pgpService wrongPassManager) ''user-1'' = Inr ''user-1''"
    by (simp add: toy_defs)
  have ok: "fst (load FirstSettlesFirst freshManager ''correct-horse#user-1'' ''user-1'') = Inr ()"
    by (simp add: method_defs toy_defs)
  from t [where M = wrongPassManager and e = BadPassphrase and ord = FirstSettlesFirst
            and encryptedPrivateKey = "''correct-horse#user-1''" and pubText = "''user-1''"] d r
  have a: "load FirstSettlesFirst wrongPassManager ''correct-horse#user-1'' ''user-1'' =
      (Inl BadPassphrase, wrongPassManager)"
    by simp
  from t [where M = freshManager and ord = FirstSettlesFirst and u = "()"
            and encryptedPrivateKey = "''correct-horse#user-1''" and pubText = "''user-1''"] ok
  have b: "Ready (snd (load FirstSettlesFirst freshManager ''correct-horse#user-1'' ''user-1''))"
    by blast
  from d a wrongPassManager_Uninitialized ok b show ?thesis
    by simp
qed

section \<open>Failed initialisation\<close>

text \<open>
  Claim C6. If \<^verbatim>\<open>build\<close> or \<^verbatim>\<open>load\<close> rejects, the instance afterwards is the instance before
  the call: none of its fields has changed, so an Uninitialized instance stays
  Uninitialized. They reject whenever key generation, the private-key decryption or the
  public-key import rejects.
\<close>

theorem failed_build_or_load_leaves_instance_unchanged:
  "(fst (build ord d M) = Inl e \<longrightarrow> snd (build ord d M) = M) \<and>
   (fst (load ord M encryptedPrivateKey pubText) = Inl e \<longrightarrow>
      snd (load ord M encryptedPrivateKey pubText) = M) \<and>
   (generateKeyPair (pgpService M) d (passphrase M) (userId M) = Inl e \<longrightarrow>
      build ord d M = (Inl e, M)) \<and>
   (generateKeyPair (pgpService M) d (passphrase M) (userId M) = Inr (privText, pubText') \<and>
    (isl (decryptPrivateKey (pgpService M) privText (passphrase M)) \<or>
     isl (readPublicKey (pgpService M) pubText')) \<longrightarrow>
      isl (fst (build ord d M)) \<and> snd (build ord d M) = M) \<and>
   (isl (decryptPrivateKey (pgpService M) encryptedPrivateKey (passphrase M)) \<or>
    isl (readPublicKey (pgpService M) pubText) \<longrightarrow>
      isl (fst (load ord M encryptedPrivateKey pubText)) \<and>
      snd (load ord M encryptedPrivateKey pubText) = M)"
proof -
  have b: "fst (build ord d M) = Inl e \<longrightarrow> snd (build ord d M) = M"
    by (auto simp: build_def split: sum.splits prod.splits)
  have l: "fst (load ord M encryptedPrivateKey pubText) = Inl e \<longrightarrow>
      snd (load ord M encryptedPrivateKey pubText) = M"
    by (auto simp: load_def split: sum.splits prod.splits)
  have g: "generateKeyPair (pgpService M) d (passphrase M) (userId M) = Inl e \<longrightarrow>
      build ord d M = (Inl e, M)"
    by (simp add: build_def)
  have bp: "generateKeyPair (pgpService M) d (passphrase M) (userId M) = Inr (privText, pubText') \<and>
    (isl (decryptPrivateKey (pgpService M) privText (passphrase M)) \<or>
     isl (readPublicKey (pgpService M) pubText')) \<longrightarrow>
      isl (fst (build ord d M)) \<and> snd (build ord d M) = M"
  proof
    assume h: "generateKeyPair (pgpService M) d (passphrase M) (userId M) = Inr (privText, pubText') \<and>
      (isl (decryptPrivateKey (pgpService M) privText (passphrase M)) \<or>
       isl (readPublicKey (pgpService M) pubText'))"
    then have "isl (promise_all2 ord (decryptPrivateKey (pgpService M) privText (passphrase M))
        (readPublicKey (pgpService M) pubText'))"
      by (simp add: promise_all2_isl)
    then obtain e' where
      "promise_all2 ord (decryptPrivateKey (pgpService M) privText (passphrase M))
         (readPublicKey (pgpService M) pubText') = Inl e'"
      by (auto simp: isl_def)
    with h show "isl (fst (build ord d M)) \<and> snd (build ord d M) = M"
      by (simp add: build_def)
  qed
  have lp: "isl (decryptPrivateKey (pgpService M) encryptedPrivateKey (passphrase M)) \<or>
    isl (readPublicKey (pgpService M) pubText) \<longrightarrow>
      isl (fst (load ord M encryptedPrivateKey pubText)) \<and>
      snd (load ord M encryptedPrivateKey pubText) = M"
  proof
    assume "isl (decryptPrivateKey (pgpService M) encryptedPrivateKey (passphrase M)) \<or>
      isl (readPublicKey (pgpService M) pubText)"
    then have "isl (promise_all2 ord
        (decryptPrivateKey (pgpService M) encryptedPrivateKey (passphrase M))
        (readPublicKey (pgpService M) pubText))"
      by (simp add: promise_all2_isl)
    then obtain e' where
      "promise_all2 ord (decryptPrivateKey (pgpService M) encryptedPrivateKey (passphrase M))
         (readPublicKey (pgpService M) pubText) = Inl e'"
      by (auto simp: isl_def)
    then show "isl (fst (load ord M encryptedPrivateKey pubText)) \<and>
      snd (load ord M encryptedPrivateKey pubText) = M"
      by (simp add: load_def)
  qed
  from b l g bp lp show ?thesis by blast
qed

theorem failed_build_or_load_leaves_instance_unchanged_witness:
  "Uninitialized noUserManager \<and>
   fst (build FirstSettlesFirst 0 noUserManager) = Inl KeyGenFailed \<and>
   snd (build FirstSettlesFirst 0 noUserManager) = noUserManager \<and>
   Uninitialized wrongPassManager \<and>
   fst (load FirstSettlesFirst wrongPassManager ''correct-horse#user-1'' ''user-1'') =
     Inl BadPassphrase \<and>
   snd (load FirstSettlesFirst wrongPassManager ''correct-horse#user-1'' ''user-1'') =
     wrongPassManager \<and>
   isl (fst (load SecondSettlesFirst freshManager ''correct-horse#user-1'' '''')) \<and>
   snd (load SecondSettlesFirst freshManager ''correct-horse#user-1'' '''') = freshManager"
proof -
  have u: "Uninitialized noUserManager"
    by (simp add: noUserManager_def constructor_Uninitialized)
  have b: "fst (build FirstSettlesFirst 0 noUserManager) = Inl KeyGenFailed"
    by (simp add: noUserManager_def build_def constructor_def toyPGP_def)
  have l: "fst (load FirstSettlesFirst wrongPassManager ''correct-horse#user-1'' ''user-1'') =
      Inl BadPassphrase"
    by (simp add: method_defs toy_defs)
  have p: "isl (readPublicKey (pgpService freshManager) '''')"
    by (simp add: toy_defs)
  note t1 = failed_build_or_load_leaves_instance_unchanged
         [where ord = FirstSettlesFirst and d = 0 and M = noUserManager and e = KeyGenFailed]
  note t2 = failed_build_or_load_leaves_instance_unchanged
         [where ord = FirstSettlesFirst and M = wrongPassManager and e = BadPassphrase
            and encryptedPrivateKey = "''correct-horse#user-1''" and pubText = "''user-1''"]
  note t3 = failed_build_or_load_leaves_instance_unchanged
         [where ord = SecondSettlesFirst and M = freshManager
            and encryptedPrivateKey = "''correct-horse#user-1''" and pubText = "''''"]
  from t1 b have b': "snd (build FirstSettlesFirst 0 noUserManager) = noUserManager"
    by blast
  from t2 l have l':
    "snd (load FirstSettlesFirst wrongPassManager ''correct-horse#user-1'' ''user-1'') =
       wrongPassManager"
    by blast
  from t3 p have p':
    "isl (fst (load SecondSettlesFirst freshManager ''correct-horse#user-1'' '''')) \<and>
     snd (load SecondSettlesFirst freshManager ''correct-horse#user-1'' '''') = freshManager"
    by blast
  from u b b' wrongPassManager_Uninitialized l l' p' show ?thesis
    by simp
qed

section \<open>Failures of decrypt\<close>

text \<open>
  Claim C7. \<^verbatim>\<open>decrypt\<close> rejects whenever the key-unwrap step rejects, be it the asymmetric
  decryption or the whole of \<^verbatim>\<open>decryptKey\<close>, and then with the very same reason; it rejects
  whenever the payload decryption under the recovered key rejects. A rejected call
  returns no item. A resolved call returns exactly what the unwrap and the payload
  decryption resolved to, so no partial or garbled plaintext is returned. This holds in
  every state, in particular for every Ready instance.
\<close>

theorem decrypt_rejects_without_item:
  "(decryptKey U M encKey = Inl e \<longrightarrow> decrypt U M encKey encryptedData = (Inl e, M)) \<and>
   (decryptAsymmetric (pgpService M) (privateKey M) (publicKey M) encKey = Inl e \<longrightarrow>
      decrypt U M encKey encryptedData = (Inl e, M)) \<and>
   (decryptKey U M encKey = Inr (k, ko) \<and>
    PGPService.decrypt (pgpService M) k encryptedData = Inl e \<longrightarrow>
      decrypt U M encKey encryptedData = (Inl e, M)) \<and>
   (decryptAsymmetric (pgpService M) (privateKey M) (publicKey M) encKey = Inr k \<and>
    PGPService.decrypt (pgpService M) k encryptedData = Inl e \<longrightarrow>
      isl (fst (decrypt U M encKey encryptedData))) \<and>
   (fst (decrypt U M encKey encryptedData) = Inr item \<longrightarrow>
      decryptKey U M encKey = Inr (key item, E2EEItem.keyObj item) \<and>
      PGPService.decrypt (pgpService M) (key item) encryptedData = Inr (value item))"
  by (auto simp: decrypt_def decryptKey_def split: sum.splits prod.splits)

theorem decrypt_rejects_without_item_witness:
  "Ready readyManager \<and>
   decryptKey hexUtils readyManager ''user-2>07ab'' = Inl Tampered \<and>
   decrypt hexUtils readyManager ''user-2>07ab'' ''07ab:hello world'' =
     (Inl Tampered, readyManager) \<and>
   decryptKey hexUtils readyManager ''user-1>07ab'' = Inr (''07ab'', [7, 171]) \<and>
   PGPService.decrypt (pgpService readyManager) ''07ab'' ''07ac:hello world'' = Inl Tampered \<and>
   decrypt hexUtils readyManager ''user-1>07ab'' ''07ac:hello world'' =
     (Inl Tampered, readyManager)"
proof -
  note t = decrypt_rejects_without_item
  have k1: "decryptKey hexUtils readyManager ''user-2>07ab'' = Inl Tampered"
    by (simp add: readyManager_fields decryptKey_def toy_defs)
  have k2: "decryptKey hexUtils readyManager ''user-1>07ab'' = Inr (''07ab'', [7, 171])"
    by (simp add: readyManager_fields decryptKey_def toy_defs)
  have p: "PGPService.decrypt (pgpService readyManager) ''07ab'' ''07ac:hello world'' =
      Inl Tampered"
    by (simp add: readyManager_fields toy_defs)
  from t [where U = hexUtils and M = readyManager and encKey = "''user-2>07ab''"
            and e = Tampered and encryptedData = "''07ab:hello world''"] k1
  have a: "decrypt hexUtils readyManager ''user-2>07ab'' ''07ab:hello world'' =
      (Inl Tampered, readyManager)"
    by blast
  from t [where U = hexUtils and M = readyManager and encKey = "''user-1>07ab''"
            and e = Tampered and encryptedData = "''07ac:hello world''" and k = "''07ab''"
            and ko = "[7, 171]"] k2 p
  have b: "decrypt hexUtils readyManager ''user-1>07ab'' ''07ac:hello world'' =
      (Inl Tampered, readyManager)"
    by blast
  from readyManager_Ready k1 a k2 p b show ?thesis
    by simp
qed

section \<open>Fresh keys and distinct items\<close>

text \<open>
  Claim C8. \<^verbatim>\<open>encrypt\<close> adds nothing of its own to the two ciphertexts: \<^verbatim>\<open>encryptedKey\<close> is
  the engine's wrap of the hex key text and \<^verbatim>\<open>encryptedValue\<close> is the engine's payload
  encryption under that text. The engines are taken as the specification describes them:
  the hex codec round-trips; a text that the asymmetric engine wrapped under the
  instance's handles is recovered by unwrapping under the handles \<open>sk'\<close>, \<open>pk'\<close> of its
  reader (the instance's own handles when it holds one key pair); payload decryption
  inverts payload encryption under the same key text, and rejects a ciphertext under any
  other key text. Then two calls of \<^verbatim>\<open>encrypt(P)\<close> on the same instance that draw distinct
  keys and both resolve return different \<^verbatim>\<open>encryptedKey\<close> values and different
  \<^verbatim>\<open>encryptedValue\<close> values. This holds in every state, in particular for every Ready
  instance.
\<close>

theorem fresh_keys_give_distinct_items:
  assumes gen1: "createEncryptionKey (cryptoSvc M) d1 = Inr (k1, ko1)"
    and gen2: "createEncryptionKey (cryptoSvc M) d2 = Inr (k2, ko2)"
    and fresh: "k1 \<noteq> k2"
    and hex: "\<And>b. hexStringToArray U (arrayToHexString U b) = b"
    and unwrap:
      "\<And>t c. encryptAsymmetric (pgpService M) (privateKey M) (publicKey M) t = Inr c
         \<Longrightarrow> decryptAsymmetric (pgpService M) sk' pk' c = Inr t"
    and payload:
      "\<And>h p c. PGPService.encrypt (pgpService M) h p = Inr c
         \<Longrightarrow> PGPService.decrypt (pgpService M) h c = Inr p"
    and miskeyed:
      "\<And>h h' p c. PGPService.encrypt (pgpService M) h p = Inr c \<Longrightarrow> h' \<noteq> h
         \<Longrightarrow> isl (PGPService.decrypt (pgpService M) h' c)"
    and run1: "fst (encrypt U ord1 d1 M P) = Inr item1"
    and run2: "fst (encrypt U ord2 d2 M P) = Inr item2"
  shows "encryptedKey item1 \<noteq> encryptedKey item2 \<and>
         encryptedValue item1 \<noteq> encryptedValue item2"
proof -
  from run1 gen1
  have w1: "encryptAsymmetric (pgpService M) (privateKey M) (publicKey M)
              (arrayToHexString U k1) = Inr (encryptedKey item1)"
    and p1: "PGPService.encrypt (pgpService M) (arrayToHexString U k1) P =
               Inr (encryptedValue item1)"
    by (auto simp: encrypt_def encryptKey_def promise_all2_Inr_iff
        split: sum.splits prod.splits)
  from run2 gen2
  have w2: "encryptAsymmetric (pgpService M) (privateKey M) (publicKey M)
              (arrayToHexString U k2) = Inr (encryptedKey item2)"
    and p2: "PGPService.encrypt (pgpService M) (arrayToHexString U k2) P =
               Inr (encryptedValue item2)"
    by (auto simp: encrypt_def encryptKey_def promise_all2_Inr_iff
        split: sum.splits prod.splits)
  have h: "arrayToHexString U k1 \<noteq> arrayToHexString U k2"
  proof
    assume "arrayToHexString U k1 = arrayToHexString U k2"
    then have "hexStringToArray U (arrayToHexString U k1) =
        hexStringToArray U (arrayToHexString U k2)"
      by simp
    then have "k1 = k2"
      by (simp add: hex)
    with fresh show False by contradiction
  qed
  have "encryptedKey item1 \<noteq> encryptedKey item2"
  proof
    assume same: "encryptedKey item1 = encryptedKey item2"
    from unwrap [OF w1]
    have "decryptAsymmetric (pgpService M) sk' pk' (encryptedKey item1) =
        Inr (arrayToHexString U k1)" .
    moreover from unwrap [OF w2] same
    have "decryptAsymmetric (pgpService M) sk' pk' (encryptedKey item1) =
        Inr (arrayToHexString U k2)"
      by simp
    ultimately have "arrayToHexString U k1 = arrayToHexString U k2"
      by simp
    with h show False by contradiction
  qed
  moreover have "encryptedValue item1 \<noteq> encryptedValue item2"
  proof
    assume same: "encryptedValue item1 = encryptedValue item2"
    from payload [OF p1]
    have ok: "PGPService.decrypt (pgpService M) (arrayToHexString U k1) (encryptedValue item1) =
        Inr P" .
    from miskeyed [OF p2 h] same
    have "isl (PGPService.decrypt (pgpService M) (arrayToHexString U k1) (encryptedValue item1))"
      by simp
    with ok show False by simp
  qed
  ultimately show ?thesis by simp
qed

theorem fresh_keys_give_distinct_items_witness:
  "Ready readyManager \<and>
   fst (encrypt hexUtils FirstSettlesFirst 1 readyManager ''hello world'') =
     Inr \<lparr>encryptedKey = ''user-1>01ab'', encryptedValue = ''01ab:hello world'',
          keyObj = [1, 171]\<rparr> \<and>
   fst (encrypt hexUtils SecondSettlesFirst 2 readyManager ''hello world'') =
     Inr \<lparr>encryptedKey = ''user-1>02ab'', encryptedValue = ''02ab:hello world'',
          keyObj = [2, 171]\<rparr> \<and>
   encryptedKey \<lparr>encryptedKey = ''user-1>01ab'', encryptedValue = ''01ab:hello world'',
                 keyObj = [1, 171 :: 8 word]\<rparr> \<noteq>
   encryptedKey \<lparr>encryptedKey = ''user-1>02ab'', encryptedValue = ''02ab:hello world'',
                 keyObj = [2, 171 :: 8 word]\<rparr> \<and>
   encryptedValue \<lparr>encryptedKey = ''user-1>01ab'', encryptedValue = ''01ab:hello world'',
                   keyObj = [1, 171 :: 8 word]\<rparr> \<noteq>
   encryptedValue \<lparr>encryptedKey = ''user-1>02ab'', encryptedValue = ''02ab:hello world'',
                   keyObj = [2, 171 :: 8 word]\<rparr> \<and>
   Ready mismatchedManager \<and>
   fst (encrypt hexUtils FirstSettlesFirst 1 mismatchedManager ''hello world'') =
     Inr \<lparr>encryptedKey = ''user-2>01ab'', encryptedValue = ''01ab:hello world'',
          keyObj = [1, 171]\<rparr> \<and>
   fst (encrypt hexUtils FirstSettlesFirst 2 mismatchedManager ''hello world'') =
     Inr \<lparr>encryptedKey = ''user-2>02ab'', encryptedValue = ''02ab:hello world'',
          keyObj = [2, 171]\<rparr> \<and>
   encryptedKey \<lparr>encryptedKey = ''user-2>01ab'', encryptedValue = ''01ab:hello world'',
                 keyObj = [1, 171 :: 8 word]\<rparr> \<noteq>
   encryptedKey \<lparr>encryptedKey = ''user-2>02ab'', encryptedValue = ''02ab:hello world'',
                 keyObj = [2, 171 :: 8 word]\<rparr>"
proof -
  have ps: "pgpService readyManager = toyPGP" and cs: "cryptoSvc readyManager = toyCrypto"
    and pk: "publicKey readyManager = Some ''user-1''"
    by (simp_all add: readyManager_fields)
  have ps': "pgpService mismatchedManager = toyPGP"
    and cs': "cryptoSvc mismatchedManager = toyCrypto"
    and pk': "publicKey mismatchedManager = Some ''user-2''"
    by (simp_all add: mismatchedManager_fields)
  have gen1: "createEncryptionKey (cryptoSvc readyManager) 1 = Inr ([1, 171], [1, 171])"
    and gen2: "createEncryptionKey (cryptoSvc readyManager) 2 = Inr ([2, 171], [2, 171])"
    by (simp_all add: cs toyCrypto_def)
  have gen1': "createEncryptionKey (cryptoSvc mismatchedManager) 1 = Inr ([1, 171], [1, 171])"
    and gen2': "createEncryptionKey (cryptoSvc mismatchedManager) 2 = Inr ([2, 171], [2, 171])"
    by (simp_all add: cs' toyCrypto_def)
  have fresh: "[1, 171] \<noteq> ([2, 171] :: bytes)"
    by simp
  have run1: "fst (encrypt hexUtils FirstSettlesFirst 1 readyManager ''hello world'') =
      Inr \<lparr>encryptedKey = ''user-1>01ab'', encryptedValue = ''01ab:hello world'',
           keyObj = [1, 171]\<rparr>"
    by (simp add: readyManager_fields method_defs toy_defs)
  have run2: "fst (encrypt hexUtils SecondSettlesFirst 2 readyManager ''hello world'') =
      Inr \<lparr>encryptedKey = ''user-1>02ab'', encryptedValue = ''02ab:hello world'',
           keyObj = [2, 171]\<rparr>"
    by (simp add: readyManager_fields method_defs toy_defs)
  have run1': "fst (encrypt hexUtils FirstSettlesFirst 1 mismatchedManager ''hello world'') =
      Inr \<lparr>encryptedKey = ''user-2>01ab'', encryptedValue = ''01ab:hello world'',
           keyObj = [1, 171]\<rparr>"
    by (simp add: mismatchedManager_fields method_defs toy_defs)
  have run2': "fst (encrypt hexUtils FirstSettlesFirst 2 mismatchedManager ''hello world'') =
      Inr \<lparr>encryptedKey = ''user-2>02ab'', encryptedValue = ''02ab:hello world'',
           keyObj = [2, 171]\<rparr>"
    by (simp add: mismatchedManager_fields method_defs toy_defs)
  have ne:
    "encryptedKey \<lparr>encryptedKey = ''user-1>01ab'', encryptedValue = ''01ab:hello world'',
                   keyObj = [1, 171 :: 8 word]\<rparr> \<noteq>
     encryptedKey \<lparr>encryptedKey = ''user-1>02ab'', encryptedValue = ''02ab:hello world'',
                   keyObj = [2, 171 :: 8 word]\<rparr> \<and>
     encryptedValue \<lparr>encryptedKey = ''user-1>01ab'', encryptedValue = ''01ab:hello world'',
                     keyObj = [1, 171 :: 8 word]\<rparr> \<noteq>
     encryptedValue \<lparr>encryptedKey = ''user-1>02ab'', encryptedValue = ''02ab:hello world'',
                     keyObj = [2, 171 :: 8 word]\<rparr>"
  proof (rule fresh_keys_give_distinct_items
      [where sk' = "Some ''user-1''" and pk' = "Some ''user-1''",
        OF gen1 gen2 fresh hexUtils_roundtrip _ _ _ run1 run2])
    show "\<And>t c.
        encryptAsymmetric (pgpService readyManager) (privateKey readyManager)
          (publicKey readyManager) t = Inr c
        \<Longrightarrow> decryptAsymmetric (pgpService readyManager) (Some ''user-1'') (Some ''user-1'') c =
            Inr t"
      unfolding ps pk by (rule toyPGP_unwrap_by_owner)
    show "\<And>h p c. PGPService.encrypt (pgpService readyManager) h p = Inr c
        \<Longrightarrow> PGPService.decrypt (pgpService readyManager) h c = Inr p"
      unfolding ps by (rule toyPGP_payload_inverse)
    show "\<And>h h' p c. PGPService.encrypt (pgpService readyManager) h p = Inr c \<Longrightarrow> h' \<noteq> h
        \<Longrightarrow> isl (PGPService.decrypt (pgpService readyManager) h' c)"
      unfolding ps by (rule toyPGP_payload_miskeyed)
  qed
  have ne':
    "encryptedKey \<lparr>encryptedKey = ''user-2>01ab'', encryptedValue = ''01ab:hello world'',
                   keyObj = [1, 171 :: 8 word]\<rparr> \<noteq>
     encryptedKey \<lparr>encryptedKey = ''user-2>02ab'', encryptedValue = ''02ab:hello world'',
                   keyObj = [2, 171 :: 8 word]\<rparr> \<and>
     encryptedValue \<lparr>encryptedKey = ''user-2>01ab'', encryptedValue = ''01ab:hello world'',
                     keyObj = [1, 171 :: 8 word]\<rparr> \<noteq>
     encryptedValue \<lparr>encryptedKey = ''user-2>02ab'', encryptedValue = ''02ab:hello world'',
                     keyObj = [2, 171 :: 8 word]\<rparr>"
  proof (rule fresh_keys_give_distinct_items
      [where sk' = "Some ''user-2''" and pk' = "Some ''user-2''",
        OF gen1' gen2' fresh hexUtils_roundtrip _ _ _ run1' run2'])
    show "\<And>t c.
        encryptAsymmetric (pgpService mismatchedManager) (privateKey mismatchedManager)
          (publicKey mismatchedManager) t = Inr c
        \<Longrightarrow> decryptAsymmetric (pgpService mismatchedManager) (Some ''user-2'')
              (Some ''user-2'') c = Inr t"
      unfolding ps' pk' by (rule toyPGP_unwrap_by_owner)
    show "\<And>h p c. PGPService.encrypt (pgpService mismatchedManager) h p = Inr c
        \<Longrightarrow> PGPService.decrypt (pgpService mismatchedManager) h c = Inr p"
      unfolding ps' by (rule toyPGP_payload_inverse)
    show "\<And>h h' p c. PGPService.encrypt (pgpService mismatchedManager) h p = Inr c
        \<Longrightarrow> h' \<noteq> h
        \<Longrightarrow> isl (PGPService.decrypt (pgpService mismatchedManager) h' c)"
      unfolding ps' by (rule toyPGP_payload_miskeyed)
  qed
  have r': "Ready mismatchedManager"
    by (simp add: mismatchedManager_fields Ready_def)
  from readyManager_Ready run1 run2 ne r' run1' run2' ne' show ?thesis
    by (intro conjI) (assumption | erule conjunct1 | erule conjunct2)+
qed

section \<open>Frame: the item operations and the export leave the instance alone\<close>

text \<open>
  Claim C9. The four key-pair fields are assigned by \<^verbatim>\<open>build\<close> and \<^verbatim>\<open>load\<close> only:
  whatever \<^verbatim>\<open>encrypt\<close>, \<^verbatim>\<open>decrypt\<close> and \<^verbatim>\<open>exportMasterKeys\<close> return, and whether they resolve
  or reject, the instance after the call is the instance before it, field for field.
  This holds in every state, in particular for every Ready instance.
\<close>

theorem item_operations_leave_instance_unchanged:
  "snd (encrypt U ord d M dat) = M \<and>
   snd (decrypt U M encKey encryptedData) = M \<and>
   snd (exportMasterKeys M) = M"
  by (simp add: encrypt_def decrypt_def exportMasterKeys_def split: sum.splits prod.splits)

theorem item_operations_leave_instance_unchanged_witness:
  "Ready readyManager \<and>
   snd (encrypt hexUtils FirstSettlesFirst 7 readyManager ''hello world'') = readyManager \<and>
   snd (decrypt hexUtils readyManager ''user-1>07ab'' ''07ab:hello world'') = readyManager \<and>
   snd (exportMasterKeys readyManager) = readyManager"
  using item_operations_leave_instance_unchanged
    [of hexUtils FirstSettlesFirst 7 readyManager "''hello world''" "''user-1>07ab''"
        "''07ab:hello world''"]
    readyManager_Ready
  by simp

section \<open>No consistency check between the two loaded keys\<close>

text \<open>
  Claim C10. \<^verbatim>\<open>load\<close> resolves if and only if the private key decrypts under the
  configured passphrase and the public key parses; the two stored handles are the results
  of these two independent calls. Nothing relates the two keys to one another: \<^verbatim>\<open>load\<close>
  resolves also for a public key that does not belong to the private key.
\<close>

theorem load_checks_each_key_on_its_own:
  "((\<exists>M'. load ord M encryptedPrivateKey pubText = (Inr (), M')) \<longleftrightarrow>
      (\<exists>sk. decryptPrivateKey (pgpService M) encryptedPrivateKey (passphrase M) = Inr sk) \<and>
      (\<exists>pk. readPublicKey (pgpService M) pubText = Inr pk)) \<and>
   (decryptPrivateKey (pgpService M) encryptedPrivateKey (passphrase M) = Inr sk' \<and>
    readPublicKey (pgpService M) pubText = Inr pk' \<longrightarrow>
      load ord M encryptedPrivateKey pubText =
        (Inr (),
         M\<lparr>privateKey := Some sk', publicKey := Some pk',
           privateKeyEncryptedText := Some encryptedPrivateKey,
           publicKeyText := Some pubText\<rparr>))"
  by (auto simp: load_def promise_all2_def split: sum.splits prod.splits settle.splits)

theorem load_checks_each_key_on_its_own_witness:
  "decryptPrivateKey (pgpService freshManager) ''correct-horse#user-1''
     (passphrase freshManager) = Inr ''user-1'' \<and>
   readPublicKey (pgpService freshManager) ''user-2'' = Inr ''user-2'' \<and>
   load FirstSettlesFirst freshManager ''correct-horse#user-1'' ''user-2'' =
     (Inr (),
      freshManager\<lparr>privateKey := Some ''user-1'', publicKey := Some ''user-2'',
        privateKeyEncryptedText := Some ''correct-horse#user-1'',
        publicKeyText := Some ''user-2''\<rparr>) \<and>
   encryptAsymmetric toyPGP (Some ''user-1'') (Some ''user-2'') ''07ab'' = Inr ''user-2>07ab'' \<and>
   decryptAsymmetric toyPGP (Some ''user-1'') (Some ''user-2'') ''user-2>07ab'' = Inl Tampered"
proof -
  have d: "decryptPrivateKey (pgpService freshManager) ''correct-horse#user-1''
      (passphrase freshManager) = Inr ''user-1''"
    by (simp add: toy_defs)
  have p: "readPublicKey (pgpService freshManager) ''user-2'' = Inr ''user-2''"
    by (simp add: toy_defs)
  have m: "encryptAsymmetric toyPGP (Some ''user-1'') (Some ''user-2'') ''07ab'' =
      Inr ''user-2>07ab'' \<and>
     decryptAsymmetric toyPGP (Some ''user-1'') (Some ''user-2'') ''user-2>07ab'' = Inl Tampered"
    by (simp add: toy_defs)
  from load_checks_each_key_on_its_own
         [where ord = FirstSettlesFirst and M = freshManager
            and encryptedPrivateKey = "''correct-horse#user-1''" and pubText = "''user-2''"
            and sk' = "''user-1''" and pk' = "''user-2''"] d p
  have l: "load FirstSettlesFirst freshManager ''correct-horse#user-1'' ''user-2'' =
     (Inr (),
      freshManager\<lparr>privateKey := Some ''user-1'', publicKey := Some ''user-2'',
        privateKeyEncryptedText := Some ''correct-horse#user-1'',
        publicKeyText := Some ''user-2''\<rparr>)"
    by blast
  from d p l m show ?thesis
    by simp
qed

end
